theory Spec2Isabelle
  imports Main "HOL-Library.Sublist"
begin

section \<open>Data model (types/lsp.go, types/core.go, core/handler.go)\<close>

text \<open>
  Go strings are byte sequences: a \<open>string\<close> here is the list of the bytes of the Go
  string, and \<open>length\<close> is Go's \<open>len\<close>. Go's \<open>int\<close> is the 64-bit signed integer;
  values are kept as \<open>int\<close> and the arithmetic of the source is wrapped by \<open>int64\<close>.
  A Go map whose emptiness or contents are inspected is an association list with
  distinct keys (\<open>map_of\<close> is the lookup); the two tables of the handler are partial
  functions.
\<close>

type_synonym DocumentURI = string

definition int64 :: "int \<Rightarrow> int" where
  "int64 x = (x + 2 ^ 63) mod 2 ^ 64 - 2 ^ 63"

record Position =
  Line :: int
  Character :: int

record Range =
  Start :: Position
  End :: Position

definition DiagError :: int where "DiagError = 1"
definition DiagWarning :: int where "DiagWarning = 2"
definition DiagInformation :: int where "DiagInformation = 3"
definition DiagHint :: int where "DiagHint = 4"

record Diagnostic =
  DRange :: Range
  Severity :: int
  Code :: "int option"
  Source :: "string option"
  Message :: string

record PublishDiagnosticsParams =
  URI :: DocumentURI
  Diagnostics :: "Diagnostic list"
  PVersion :: int

record TextEdit =
  ERange :: Range
  NewText :: string

record Language =
  Env :: "string list"
  RootMarkers :: "string list"
  RequireMarker :: bool
  Prefix :: string
  LintFormats :: "string list"
  LintStdin :: bool
  LintOffset :: int
  LintOffsetColumns :: int
  LintCommand :: string
  LintIgnoreExitCode :: bool
  LintCategoryMap :: "(string \<times> string) list"
  LintSource :: string
  LintSeverity :: int
  LintAfterOpen :: "bool option"
  LintOnChange :: "bool option"
  LintOnSave :: "bool option"
  FormatCommand :: string
  FormatCanRange :: bool

datatype EventType = EventTypeChange | EventTypeSave | EventTypeOpen

record fileRef =
  Version :: int
  NormalizedFilename :: string
  LanguageID :: string
  Text :: string
  Uri :: DocumentURI

record LangHandler =
  configs :: "string \<rightharpoonup> Language list"
  files :: "DocumentURI \<rightharpoonup> fileRef"
  RootPath :: string

text \<open>The fields of an errorformat entry (github.com/reviewdog/errorformat) that the
  linting code reads. \<open>Type\<close> is a rune.\<close>

record Entry =
  Filename :: string
  Lnum :: int
  EndLnum :: int
  Col :: int
  EndCol :: int
  Nr :: int
  EText :: string
  Type :: int
  Valid :: bool

datatype go_panic = IndexOutOfRange

section \<open>Runes and UTF-8 (Go's string(rune) and []rune(string))\<close>

definition RuneError :: int where "RuneError = 0xFFFD"

definition rune :: "char \<Rightarrow> int" where
  "rune c = of_char c"

definition byte :: "int \<Rightarrow> char" where
  "byte n = char_of n"

text \<open>\<open>string(r)\<close> for a rune \<open>r\<close>: its UTF-8 encoding, the encoding of U+FFFD for
  a value that is no code point.\<close>

definition string_of_rune :: "int \<Rightarrow> string" where
  "string_of_rune r =
     (if 0 \<le> r \<and> r < 0x80 then [byte r]
      else if 0x80 \<le> r \<and> r < 0x800 then [byte (0xC0 + r div 64), byte (0x80 + r mod 64)]
      else if r < 0 \<or> 0x10FFFF < r \<or> (0xD800 \<le> r \<and> r \<le> 0xDFFF)
        then [byte 0xEF, byte 0xBF, byte 0xBD]
      else if r < 0x10000
        then [byte (0xE0 + r div 4096), byte (0x80 + (r div 64) mod 64), byte (0x80 + r mod 64)]
      else [byte (0xF0 + r div 262144), byte (0x80 + (r div 4096) mod 64),
            byte (0x80 + (r div 64) mod 64), byte (0x80 + r mod 64)])"

text \<open>The first rune of a string, as \<open>utf8.DecodeRuneInString\<close> reads it (what
  \<open>[]rune(s)[0]\<close> is for a non-empty \<open>s\<close>): U+FFFD for an invalid or truncated
  sequence.\<close>

fun DecodeRune :: "string \<Rightarrow> int" where
  "DecodeRune [] = RuneError"
| "DecodeRune (c0 # cs) =
     (let b0 = rune c0 in
      if b0 < 0x80 then b0
      else if b0 < 0xC2 \<or> 0xF4 < b0 then RuneError
      else
        let sz = (if b0 < 0xE0 then 2 else if b0 < 0xF0 then 3 else (4::nat));
            lo = (if b0 = 0xE0 then 0xA0 else if b0 = 0xF0 then 0x90 else 0x80);
            hi = (if b0 = 0xED then 0x9F else if b0 = 0xF4 then 0x8F else 0xBF)
        in if length cs + 1 < sz then RuneError
           else
             let b1 = rune (cs ! 0) in
             if b1 < lo \<or> hi < b1 then RuneError
             else if sz = 2 then (b0 mod 32) * 64 + b1 mod 64
             else
               let b2 = rune (cs ! 1) in
               if b2 < 0x80 \<or> 0xBF < b2 then RuneError
               else if sz = 3 then (b0 mod 16) * 4096 + (b1 mod 64) * 64 + b2 mod 64
               else
                 let b3 = rune (cs ! 2) in
                 if b3 < 0x80 \<or> 0xBF < b3 then RuneError
                 else (b0 mod 8) * 262144 + (b1 mod 64) * 4096 + (b2 mod 64) * 64 + b3 mod 64)"

section \<open>Diagnostics from errorformat entries (core/linting.go)\<close>

text \<open>
  \<open>getSeverity\<close>: with a non-empty category map the type is replaced by the first
  rune of \<open>categoryMap[string(typ)]\<close>. A missing key reads as the empty string in Go,
  and indexing the empty rune slice at 0 panics.
\<close>

definition getSeverity :: "int \<Rightarrow> (string \<times> string) list \<Rightarrow> int \<Rightarrow> go_panic + int" where
  "getSeverity typ categoryMap defaultSeverity =
     (case (if categoryMap \<noteq> []
            then (case (case map_of categoryMap (string_of_rune typ) of
                          None \<Rightarrow> [] | Some s \<Rightarrow> s) of
                    [] \<Rightarrow> Inl IndexOutOfRange
                  | c # cs \<Rightarrow> Inr (DecodeRune (c # cs)))
            else Inr typ) of
        Inl p \<Rightarrow> Inl p
      | Inr t \<Rightarrow>
          Inr (let severity = (if defaultSeverity \<noteq> 0 then defaultSeverity else DiagError) in
               if t = rune CHR ''E'' \<or> t = rune CHR ''e'' then DiagError
               else if t = rune CHR ''W'' \<or> t = rune CHR ''w'' then DiagWarning
               else if t = rune CHR ''I'' \<or> t = rune CHR ''i'' then DiagInformation
               else if t = rune CHR ''N'' \<or> t = rune CHR ''n'' then DiagHint
               else severity))"

definition itoaPtrIfNotZero :: "int \<Rightarrow> int option" where
  "itoaPtrIfNotZero n = (if n = 0 then None else Some n)"

definition getLintSource :: "Language \<Rightarrow> string option" where
  "getLintSource config = (if LintSource config \<noteq> [] then Some (LintSource config) else None)"

definition getLintMessagePrefix :: "Language \<Rightarrow> string" where
  "getLintMessagePrefix config =
     (if Prefix config \<noteq> [] then ''['' @ Prefix config @ ''] '' else [])"

text \<open>
  \<open>parseEfmEntryToDiagnostic\<close>. The word scanner \<open>WordAtUtf16\<close>, a function of another
  file of the package, is a parameter; only the length of its result is used. The
  panic of \<open>getSeverity\<close> leaves the function without a diagnostic.
\<close>

definition parseEfmEntryToDiagnostic ::
    "(string \<Rightarrow> Position \<Rightarrow> string) \<Rightarrow> Entry \<Rightarrow> Language \<Rightarrow> fileRef \<Rightarrow> go_panic + Diagnostic" where
  "parseEfmEntryToDiagnostic WordAtUtf16 entry config f =
     (let lineStart = max (int64 (int64 (Lnum entry - 1) - LintOffset config)) 0;
          lineEnd = (if EndLnum entry \<noteq> 0
                     then max (int64 (int64 (EndLnum entry - 1) - LintOffset config)) 0
                     else lineStart);
          colStart0 = max (int64 (Col entry - 1)) 0;
          colStart = (if Col entry \<noteq> 0 then int64 (colStart0 + LintOffsetColumns config)
                      else colStart0);
          colEnd = (if Col entry \<noteq> 0
                    then (if EndCol entry \<noteq> 0
                          then int64 (max (int64 (EndCol entry - 1)) 0 + LintOffsetColumns config)
                          else int64 (colStart + int (length (WordAtUtf16 (Text f)
                                 \<lparr>Line = lineStart, Character = colStart\<rparr>))))
                    else colStart0)
      in case getSeverity (Type entry) (LintCategoryMap config) (LintSeverity config) of
           Inl p \<Rightarrow> Inl p
         | Inr sev \<Rightarrow>
             Inr \<lparr>DRange = \<lparr>Start = \<lparr>Line = lineStart, Character = colStart\<rparr>,
                             End = \<lparr>Line = lineEnd, Character = colEnd\<rparr>\<rparr>,
                  Severity = sev,
                  Code = itoaPtrIfNotZero (Nr entry),
                  Source = getLintSource config,
                  Message = getLintMessagePrefix config @ EText entry\<rparr>)"

section \<open>Running a lint command (core/linting.go)\<close>

text \<open>
  What \<open>cmd.CombinedOutput()\<close> hands back: the combined output and an error that is
  nil for a child that exited with status 0, an \<open>*exec.ExitError\<close> holding the wait
  status of a child that ended otherwise, or another error (the command could not be
  started, the pipes failed). \<open>ExitCode\<close> is the method of os/exec on POSIX systems:
  the exit status masked to eight bits for a child that exited, -1 for one that was
  terminated by a signal. An \<open>ExitError\<close> therefore never has the exit code 0.
\<close>

datatype wait_status = Exited nat | Signaled

datatype go_error = ExitError wait_status | OtherError string

fun ExitCode :: "wait_status \<Rightarrow> int" where
  "ExitCode (Exited n) = int (n mod 256)"
| "ExitCode Signaled = - 1"

definition unknownExitCode :: int where
  "unknownExitCode = - 999"

fun parseErrorExitCode :: "go_error \<Rightarrow> int" where
  "parseErrorExitCode (ExitError ws) = ExitCode ws"
| "parseErrorExitCode (OtherError m) = unknownExitCode"

text \<open>The result pair is Go's \<open>([]byte, error)\<close>: \<open>None\<close> is nil.\<close>

definition runLintCommand ::
    "string \<times> go_error option \<Rightarrow> Language \<Rightarrow> string option \<times> go_error option" where
  "runLintCommand res config =
     (case res of (lintOutput, lintCmdError) \<Rightarrow>
        (case lintCmdError of
           None \<Rightarrow> (if LintIgnoreExitCode config then (Some lintOutput, None) else (None, None))
         | Some err \<Rightarrow>
             (let code = parseErrorExitCode err in
              if code = unknownExitCode then (Some lintOutput, Some err)
              else if code < 0 then (None, None)
              else (Some lintOutput, None))))"

section \<open>The document store (core/handler.go)\<close>

text \<open>
  \<open>PathFromURI\<close>, a function of another file of the package, is a parameter: it yields
  the path of a URI or an error. \<open>filepath.ToSlash\<close> is the identity where the separator
  is the slash.
\<close>

datatype handler_error = InvalidUri string | DocumentNotFound DocumentURI
  | CouldNotFormat string "string list"




definition CloseFile :: "LangHandler \<Rightarrow> DocumentURI \<Rightarrow> handler_error option \<times> LangHandler" where
  "CloseFile h uri = (None, h\<lparr>files := (files h)(uri := None)\<rparr>)"






text \<open>Go's zero value of \<open>types.Language\<close> and an empty handler, for concrete runs.\<close>

definition zeroLanguage :: Language where
  "zeroLanguage =
     \<lparr>Env = [], RootMarkers = [], RequireMarker = False, Prefix = [], LintFormats = [],
      LintStdin = False, LintOffset = 0, LintOffsetColumns = 0, LintCommand = [],
      LintIgnoreExitCode = False, LintCategoryMap = [], LintSource = [], LintSeverity = 0,
      LintAfterOpen = None, LintOnChange = None, LintOnSave = None, FormatCommand = [],
      FormatCanRange = False\<rparr>"


section \<open>Strings (Go's strings, path/filepath and regexp, as far as the code uses them)\<close>

text \<open>
  \<open>strings.ReplaceAll\<close> for a non-empty pattern: the occurrences are replaced from the
  left and do not overlap. Every call in the source passes a non-empty constant; for
  the empty pattern the function is left unspecified.
\<close>

function ReplaceAll :: "string \<Rightarrow> string \<Rightarrow> string \<Rightarrow> string" where
  "ReplaceAll s [] new = undefined"
| "ReplaceAll [] (o1 # old) new = []"
| "ReplaceAll (c # cs) (o1 # old) new =
     (if prefix (o1 # old) (c # cs)
      then new @ ReplaceAll (drop (length old) cs) (o1 # old) new
      else c # ReplaceAll cs (o1 # old) new)"
  by pat_completeness auto
termination
  by (relation "measure (\<lambda>(s, old, new). length s)") auto

definition TrimPrefix :: "string \<Rightarrow> string \<Rightarrow> string" where
  "TrimPrefix s p = (if prefix p s then drop (length p) s else s)"










text \<open>\<open>filepath.Ext\<close>: the suffix from the last dot of the last path element.\<close>

definition Ext :: "string \<Rightarrow> string" where
  "Ext path =
     (let tail = rev (takeWhile (\<lambda>c. c \<noteq> CHR ''/'') (rev path))
      in if CHR ''.'' \<in> set tail
         then CHR ''.'' # rev (takeWhile (\<lambda>c. c \<noteq> CHR ''.'') (rev tail))
         else [])"








section \<open>Command strings (core/handler.go, core/formatting.go)\<close>

definition inputPlaceholder :: string where "inputPlaceholder = ''${INPUT}''"
definition fileextPlaceholder :: string where "fileextPlaceholder = ''${FILEEXT}''"
definition filenamePlaceholder :: string where "filenamePlaceholder = ''${FILENAME}''"
definition rootPlaceholder :: string where "rootPlaceholder = ''${ROOT}''"

definition escapeBrackets :: "string \<Rightarrow> string" where
  "escapeBrackets path = ReplaceAll (ReplaceAll path ''('' [CHR 0x5C, CHR ''('']) '')'' [CHR 0x5C, CHR '')'']"

text \<open>\<open>filepath.FromSlash\<close> is the identity where the separator is the slash.\<close>

definition replaceMagicStrings :: "string \<Rightarrow> string \<Rightarrow> string \<Rightarrow> string" where
  "replaceMagicStrings command fname rootPath =
     (let ext = TrimPrefix (Ext fname) ''.'';
          command = ReplaceAll command inputPlaceholder (escapeBrackets fname);
          command = ReplaceAll command fileextPlaceholder ext;
          command = ReplaceAll command filenamePlaceholder (escapeBrackets fname);
          command = ReplaceAll command rootPlaceholder (escapeBrackets rootPath)
      in command)"








section \<open>Paths and the root resolver (path/filepath, core/handler.go)\<close>

text \<open>
  \<open>filepath.Clean\<close> and \<open>filepath.Dir\<close> of the Go library, for systems whose separator
  is the slash and whose paths have no volume name. \<open>clean_loop\<close> is the loop of
  \<open>Clean\<close>: \<open>out\<close> is the buffer written so far, \<open>dotdot\<close> the index where backtracking
  must stop, the last argument the part of the path not yet read. \<open>backtrack\<close> is the
  inner loop that removes the last element of the buffer.
\<close>

fun backtrack :: "string \<Rightarrow> nat \<Rightarrow> nat \<Rightarrow> nat" where
  "backtrack out dotdot w =
     (if dotdot < w \<and> out ! w \<noteq> CHR ''/'' then backtrack out dotdot (w - 1) else w)"

declare backtrack.simps [simp del]

function clean_loop :: "bool \<Rightarrow> string \<Rightarrow> nat \<Rightarrow> string \<Rightarrow> string" where
  "clean_loop rooted out dotdot [] = out"
| "clean_loop rooted out dotdot (c # cs) =
     (if c = CHR ''/'' then clean_loop rooted out dotdot cs
      else if c = CHR ''.'' \<and> (cs = [] \<or> hd cs = CHR ''/'') then clean_loop rooted out dotdot cs
      else if c = CHR ''.'' \<and> cs \<noteq> [] \<and> hd cs = CHR ''.''
              \<and> (tl cs = [] \<or> hd (tl cs) = CHR ''/'')
      then (if dotdot < length out
            then clean_loop rooted (take (backtrack out dotdot (length out - 1)) out) dotdot (tl cs)
            else if \<not> rooted
            then (let out = (if out \<noteq> [] then out @ ''/'' else out) @ ''..''
                  in clean_loop rooted out (length out) (tl cs))
            else clean_loop rooted out dotdot (tl cs))
      else (let out = (if (rooted \<and> length out \<noteq> 1) \<or> (\<not> rooted \<and> length out \<noteq> 0)
                       then out @ ''/'' else out)
            in clean_loop rooted (out @ takeWhile (\<lambda>x. x \<noteq> CHR ''/'') (c # cs)) dotdot
                 (dropWhile (\<lambda>x. x \<noteq> CHR ''/'') (c # cs))))"
  by pat_completeness auto
termination
  by (relation "measure (\<lambda>(rooted, out, dotdot, p). length p)")
     (auto simp: less_Suc_eq_le length_dropWhile_le)

definition Clean :: "string \<Rightarrow> string" where
  "Clean path =
     (if path = [] then ''.''
      else (let rooted = (hd path = CHR ''/'');
                out = (if rooted then clean_loop True ''/'' 1 (tl path)
                       else clean_loop False [] 0 path)
            in if out = [] then ''.'' else out))"

definition Dir :: "string \<Rightarrow> string" where
  "Dir path = Clean (rev (dropWhile (\<lambda>c. c \<noteq> CHR ''/'') (rev path)))"


definition walk_rank :: "string \<Rightarrow> nat" where
  "walk_rank d = (if CHR ''/'' \<in> set d then length d + 1 else if d = ''.'' then 0 else 1)"


text \<open>
  The file system is a parameter: \<open>ReadDir\<close> lists the entries of a directory with
  their directory flag (nothing when \<open>os.ReadDir\<close> fails, as the source ignores the
  error), \<open>Match\<close> is the boolean result of \<open>filepath.Match\<close> (false on a malformed
  pattern).
\<close>

record filesystem =
  ReadDir :: "string \<Rightarrow> (string \<times> bool) list"
  Match :: "string \<Rightarrow> string \<Rightarrow> bool"

text \<open>One marker against one directory entry; \<open>strings.TrimRight(marker, "/")\<close> removes
  every trailing slash.\<close>

definition markerMatches :: "filesystem \<Rightarrow> string \<times> bool \<Rightarrow> string \<Rightarrow> bool" where
  "markerMatches fs file marker =
     (case file of (name, isDir) \<Rightarrow>
        if suffix ''/'' marker
        then isDir \<and> Match fs (rev (dropWhile (\<lambda>c. c = CHR ''/'') (rev marker))) name
        else \<not> isDir \<and> Match fs marker name)"

text \<open>The two inner loops of \<open>matchRootPath\<close> return the directory at the first entry
  and marker that match.\<close>

definition dirMatches :: "filesystem \<Rightarrow> string list \<Rightarrow> string \<Rightarrow> bool" where
  "dirMatches fs markers dir =
     list_ex (\<lambda>file. list_ex (markerMatches fs file) markers) (ReadDir fs dir)"

text \<open>
  The upward walk of \<open>matchRootPath\<close>, \<open>for dir != prev\<close>. Nothing in its text bounds
  the number of rounds, so it is a partial function: \<open>None\<close> stands for a walk that
  does not return.
\<close>

partial_function (option) matchRootPath_walk ::
    "filesystem \<Rightarrow> string list \<Rightarrow> string \<Rightarrow> string \<Rightarrow> string option" where
  "matchRootPath_walk fs markers dir prev =
     (if dir \<noteq> prev
      then (if dirMatches fs markers dir then Some dir
            else matchRootPath_walk fs markers (Dir dir) dir)
      else Some [])"

declare matchRootPath_walk.simps [code]

text \<open>\<open>matchRootPath\<close> for its callers; the walk always returns (see the properties of
  the root resolver), so the second case never applies.\<close>

definition matchRootPath :: "filesystem \<Rightarrow> string \<Rightarrow> string list \<Rightarrow> string" where
  "matchRootPath fs fname markers =
     (case matchRootPath_walk fs markers (Dir fname) [] of Some dir \<Rightarrow> dir | None \<Rightarrow> [])"

section \<open>Selecting configurations and running commands (core/utils.go, core/handler.go)\<close>

definition Wildcard :: string where "Wildcard = ''=''"

definition getAllConfigsForLang :: "(string \<rightharpoonup> Language list) \<Rightarrow> string \<Rightarrow> Language list" where
  "getAllConfigsForLang allConfigs langId =
     (case allConfigs langId of Some cfgs \<Rightarrow> cfgs | None \<Rightarrow> [])
     @ (case allConfigs Wildcard of Some cfgs \<Rightarrow> cfgs | None \<Rightarrow> [])"

definition boolOrDefault :: "bool option \<Rightarrow> bool \<Rightarrow> bool" where
  "boolOrDefault b def = (case b of None \<Rightarrow> def | Some v \<Rightarrow> v)"

definition findRootPath :: "filesystem \<Rightarrow> LangHandler \<Rightarrow> string \<Rightarrow> Language \<Rightarrow> string" where
  "findRootPath fs h fname lang =
     (let dir = matchRootPath fs fname (RootMarkers lang)
      in if dir \<noteq> [] then dir else RootPath h)"

text \<open>
  An \<open>exec.Cmd\<close> as \<open>buildExecCmd\<close> fills it, and the outside world that the
  pipelines call: the file system, the environment of the process, the two ways of
  running a command (\<open>cmd.Output\<close> with the standard error captured, and
  \<open>cmd.CombinedOutput\<close>), the errorformat library (\<open>None\<close> for patterns it rejects,
  else the entries it scans from an output), and two functions of other files of the
  package, \<open>ParseLocalFileToURI\<close> and \<open>WordAtUtf16\<close>.
\<close>

record ExecCmd =
  Args :: "string list"
  CmdDir :: string
  CmdEnv :: "string list"
  Stdin :: "string option"

record world =
  FS :: filesystem
  Environ :: "string list"
  Output :: "ExecCmd \<Rightarrow> string \<times> string \<times> go_error option"
  CombinedOutput :: "ExecCmd \<Rightarrow> string \<times> go_error option"
  NewErrorformat :: "string list \<Rightarrow> (string \<Rightarrow> Entry list) option"
  ParseLocalFileToURI :: "string \<Rightarrow> DocumentURI"
  WordAt :: "string \<Rightarrow> Position \<Rightarrow> string"

definition shell :: string where "shell = ''sh''"
definition shellFlag :: string where "shellFlag = ''-c''"

definition buildExecCmd :: "world \<Rightarrow> string \<Rightarrow> string \<Rightarrow> string \<Rightarrow> Language \<Rightarrow> bool \<Rightarrow> ExecCmd" where
  "buildExecCmd w command rootPath textToFormat config stdin =
     \<lparr>Args = [shell, shellFlag, command], CmdDir = rootPath,
      CmdEnv = Environ w @ Env config,
      Stdin = (if stdin then Some textToFormat else None)\<rparr>"

section \<open>The formatting pipeline (core/formatting.go)\<close>






datatype workDoneProgress = WorkBegin string | WorkReport | WorkEnd

record ProgressParams =
  Token :: string
  Value :: workDoneProgress







section \<open>The linting pipeline (core/linting.go)\<close>

definition defaultLintFormats :: "string list" where
  "defaultLintFormats = [''%f:%l:%m'', ''%f:%l:%c:%m'']"

fun Contains :: "string \<Rightarrow> string \<Rightarrow> bool" where
  "Contains [] substr = (substr = [])"
| "Contains (c # cs) substr = (prefix substr (c # cs) \<or> Contains cs substr)"

definition getLintConfigsForDocument ::
    "filesystem \<Rightarrow> string \<Rightarrow> string \<Rightarrow> (string \<rightharpoonup> Language list) \<Rightarrow> EventType \<Rightarrow> Language list" where
  "getLintConfigsForDocument fs fname langId allConfigs eventType =
     filter (\<lambda>cfg. LintCommand cfg \<noteq> []
                  \<and> \<not> (matchRootPath fs fname (RootMarkers cfg) = [] \<and> RequireMarker cfg)
                  \<and> (case eventType of
                        EventTypeOpen \<Rightarrow> boolOrDefault (LintAfterOpen cfg) True
                      | EventTypeChange \<Rightarrow> boolOrDefault (LintOnChange cfg) True
                      | EventTypeSave \<Rightarrow> boolOrDefault (LintOnSave cfg) True))
       (getAllConfigsForLang allConfigs langId)"

datatype lint_error = CommandError go_error | InvalidErrorFormat "string list"

definition buildErrorformats :: "world \<Rightarrow> string list \<Rightarrow> lint_error + (string \<Rightarrow> Entry list)" where
  "buildErrorformats w configFormats =
     (let configFormats = (if configFormats = [] then defaultLintFormats else configFormats)
      in case NewErrorformat w configFormats of
           None \<Rightarrow> Inl (InvalidErrorFormat configFormats)
         | Some efms \<Rightarrow> Inr efms)"

definition buildLintCommandString :: "string \<Rightarrow> fileRef \<Rightarrow> Language \<Rightarrow> string" where
  "buildLintCommandString rootPath f config =
     (let command = LintCommand config;
          command = (if \<not> LintStdin config \<and> \<not> Contains command inputPlaceholder
                     then command @ '' '' @ inputPlaceholder else command)
      in replaceMagicStrings command (NormalizedFilename f) rootPath)"

definition isStdinPlaceholder :: "string \<Rightarrow> bool" where
  "isStdinPlaceholder s = (s = ''stdin'' \<or> s = ''-'' \<or> s = ''<text>'' \<or> s = ''<stdin>'')"

definition replaceStdinInEntryFilename :: "string \<Rightarrow> Language \<Rightarrow> string \<Rightarrow> string" where
  "replaceStdinInEntryFilename entryFilename config fname =
     (if LintStdin config \<and> isStdinPlaceholder entryFilename then fname else entryFilename)"

text \<open>\<open>filepath.IsAbs\<close> and \<open>filepath.Join\<close> of two elements, the second not empty, for
  slash-separated paths; \<open>comparePaths\<close> is equality there.\<close>

definition IsAbs :: "string \<Rightarrow> bool" where
  "IsAbs path = prefix ''/'' path"

definition Join :: "string \<Rightarrow> string \<Rightarrow> string" where
  "Join a b = Clean (if a = [] then b else a @ ''/'' @ b)"

definition comparePaths :: "string \<Rightarrow> string \<Rightarrow> bool" where
  "comparePaths path1 path2 = (path1 = path2)"

definition isEntryForRequestedURI :: "world \<Rightarrow> string \<Rightarrow> DocumentURI \<Rightarrow> Entry \<Rightarrow> bool" where
  "isEntryForRequestedURI w rootPath uri entry =
     (if Filename entry = [] then True
      else (let diagURI = (if IsAbs (Filename entry)
                           then ParseLocalFileToURI w (Filename entry)
                           else ParseLocalFileToURI w (Join rootPath (Filename entry)))
            in comparePaths diagURI uri))"

datatype lint_result = LPanic go_panic | LError lint_error | LOk "Diagnostic list"

text \<open>The scanning loop of \<open>lintDocument\<close>, with the diagnostics gathered so far.\<close>

fun lint_entries ::
    "world \<Rightarrow> string \<Rightarrow> fileRef \<Rightarrow> Language \<Rightarrow> Entry list \<Rightarrow> Diagnostic list \<Rightarrow> lint_result" where
  "lint_entries w rootPath f config [] diagnostics = LOk diagnostics"
| "lint_entries w rootPath f config (entry # rest) diagnostics =
     (if \<not> Valid entry then lint_entries w rootPath f config rest diagnostics
      else (let entry = entry\<lparr>Filename :=
                  replaceStdinInEntryFilename (Filename entry) config (NormalizedFilename f)\<rparr>
            in if \<not> isEntryForRequestedURI w rootPath (Uri f) entry
               then lint_entries w rootPath f config rest diagnostics
               else (case parseEfmEntryToDiagnostic (WordAt w) entry config f of
                       Inl p \<Rightarrow> LPanic p
                     | Inr diagnostic \<Rightarrow>
                         lint_entries w rootPath f config rest (diagnostics @ [diagnostic]))))"

definition lintDocument :: "world \<Rightarrow> string \<Rightarrow> fileRef \<Rightarrow> Language \<Rightarrow> lint_result" where
  "lintDocument w rootPath f config =
     (let cmdStr = buildLintCommandString rootPath f config;
          cmd = buildExecCmd w cmdStr rootPath (Text f) config (LintStdin config)
      in case runLintCommand (CombinedOutput w cmd) config of
           (lintOutput, Some err) \<Rightarrow> LError (CommandError err)
         | (lintOutput, None) \<Rightarrow>
             (case buildErrorformats w (LintFormats config) of
                Inl err \<Rightarrow> LError err
              | Inr efms \<Rightarrow>
                  lint_entries w rootPath f config
                    (efms (case lintOutput of None \<Rightarrow> [] | Some out \<Rightarrow> out)) []))"

text \<open>
  What a run of \<open>RunAllLinters\<close> sends, in the order of the sends: on the diagnostics
  channel, on the error channel, on the progress channel.
\<close>

datatype lint_event =
  EvDiagnostics PublishDiagnosticsParams | EvError lint_error | EvProgress ProgressParams

text \<open>The body of the goroutine started for one configuration: a panic, or the one
  message it sends.\<close>

definition lint_worker :: "world \<Rightarrow> LangHandler \<Rightarrow> DocumentURI \<Rightarrow> fileRef \<Rightarrow> Language \<Rightarrow> go_panic + lint_event" where
  "lint_worker w h uri f config =
     (let rootPath = findRootPath (FS w) h (NormalizedFilename f) config
      in case lintDocument w rootPath f config of
           LPanic p \<Rightarrow> Inl p
         | LError err \<Rightarrow> Inr (EvError err)
         | LOk diagnostics \<Rightarrow>
             Inr (EvDiagnostics \<lparr>URI = uri, Diagnostics = diagnostics, PVersion = Version f\<rparr>))"

text \<open>
  The goroutines run concurrently; \<open>order\<close> lists the indices of the configurations
  in the order in which their goroutines come to send (a permutation of the indices in
  a real run). A panic in a goroutine ends the process: nothing is sent after it.
\<close>

datatype run_status = Returned "handler_error option" | Crashed go_panic

fun lint_workers ::
    "world \<Rightarrow> LangHandler \<Rightarrow> DocumentURI \<Rightarrow> fileRef \<Rightarrow> Language list \<Rightarrow> nat list
      \<Rightarrow> lint_event list \<times> go_panic option" where
  "lint_workers w h uri f cfgs [] = ([], None)"
| "lint_workers w h uri f cfgs (i # order) =
     (if i < length cfgs
      then (case lint_worker w h uri f (cfgs ! i) of
              Inl p \<Rightarrow> ([], Some p)
            | Inr ev \<Rightarrow>
                (case lint_workers w h uri f cfgs order of
                   (evs, crashed) \<Rightarrow> (ev # evs, crashed)))
      else lint_workers w h uri f cfgs order)"

definition RunAllLinters ::
    "world \<Rightarrow> LangHandler \<Rightarrow> string \<Rightarrow> DocumentURI \<Rightarrow> EventType \<Rightarrow> nat list
      \<Rightarrow> lint_event list \<times> run_status" where
  "RunAllLinters w h progressToken uri eventType order =
     (case files h uri of
        None \<Rightarrow> ([], Returned (Some (DocumentNotFound uri)))
      | Some f \<Rightarrow>
          (let configs = getLintConfigsForDocument (FS w) (NormalizedFilename f) (LanguageID f)
                           (configs h) eventType
           in if configs = [] then ([], Returned None)
              else (let reset = EvDiagnostics \<lparr>URI = uri, Diagnostics = [], PVersion = Version f\<rparr>;
                        started = EvProgress
                          \<lparr>Token = progressToken, Value = WorkBegin ''Linting document''\<rparr>
                    in case lint_workers w h uri f configs order of
                         (evs, Some p) \<Rightarrow> ([reset, started] @ evs, Crashed p)
                       | (evs, None) \<Rightarrow>
                           ([reset, started] @ evs
                              @ [EvProgress \<lparr>Token = progressToken, Value = WorkEnd\<rparr>],
                            Returned None))))"

text \<open>The diagnostics messages among the messages of a run, in order.\<close>

fun diagnostics_of :: "lint_event list \<Rightarrow> PublishDiagnosticsParams list" where
  "diagnostics_of [] = []"
| "diagnostics_of (EvDiagnostics d # evs) = d # diagnostics_of evs"
| "diagnostics_of (ev # evs) = diagnostics_of evs"

text \<open>A world for concrete runs: no directory has entries; the command \<open>cat\<close> copies
  its input, \<open>crlf\<close> appends a carriage return and a line feed to it, any other
  command fails with exit status 1; a linter prints one line and exits with status 1;
  the errorformat library reads each non-empty output as one entry for line 2 of the
  file \<open>foo\<close>; the URI of a path is \<open>file://\<close> followed by the path.\<close>

definition example_world :: world where
  "example_world =
     \<lparr>FS = \<lparr>ReadDir = (\<lambda>dir. []), Match = (\<lambda>pattern name. pattern = name)\<rparr>,
      Environ = [],
      Output = (\<lambda>cmd.
        let input = (case Stdin cmd of None \<Rightarrow> [] | Some t \<Rightarrow> t) in
        if Args cmd = [''sh'', ''-c'', ''cat''] then (input, [], None)
        else if Args cmd = [''sh'', ''-c'', ''crlf''] then (input @ [CHR 0x0D, CHR 0x0A], [], None)
        else ([], ''not found'', Some (ExitError (Exited 1)))),
      CombinedOutput = (\<lambda>cmd. (''foo:2:msg'', Some (ExitError (Exited 1)))),
      NewErrorformat = (\<lambda>formats. Some (\<lambda>out.
        if out = [] then []
        else [\<lparr>Filename = ''foo'', Lnum = 2, EndLnum = 0, Col = 0, EndCol = 0, Nr = 0,
               EText = ''msg'', Type = 0, Valid = True\<rparr>])),
      ParseLocalFileToURI = (\<lambda>path. ''file://'' @ path),
      WordAt = (\<lambda>text pos. [])\<rparr>"

definition example_file :: fileRef where
  "example_file =
     \<lparr>Version = 7, NormalizedFilename = ''/foo'', LanguageID = ''go'', Text = ''hello'',
      Uri = ''file:///foo''\<rparr>"

definition example_handler :: LangHandler where
  "example_handler =
     \<lparr>configs = [''go'' \<mapsto> [zeroLanguage\<lparr>FormatCommand := ''missing''\<rparr>,
                             zeroLanguage\<lparr>FormatCommand := ''crlf''\<rparr>,
                             zeroLanguage\<lparr>LintCommand := ''lint'', LintStdin := True\<rparr>]],
      files = [''file:///foo'' \<mapsto> example_file],
      RootPath = ''/''\<rparr>"

section \<open>The lint scheduler (lsp/handler.go)\<close>

text \<open>
  Time is a count of ticks. The handler has one lint timer slot; a timer made by
  \<open>time.AfterFunc\<close> holds its deadline and the \<open>uri\<close> and \<open>eventType\<close> that its
  callback has captured. \<open>running\<close> is the package variable that maps a URI to the
  cancel function of its latest run, here the number of that run, and \<open>nextRun\<close>
  counts the runs started. A call of \<open>ScheduleLinting\<close> and the firing of the timer
  are each taken as one indivisible step.
\<close>

record lint_timer =
  deadline :: nat
  timer_uri :: DocumentURI
  timer_event :: EventType

record LspHandler =
  lintTimer :: "lint_timer option"
  lintDebounce :: nat
  running :: "DocumentURI \<rightharpoonup> nat"
  nextRun :: nat

text \<open>What the scheduler does to lint runs: cancelling the run of a URI, and starting
  \<open>RunAllLinters\<close> at a time for a URI and an event type.\<close>

datatype sched_event = CancelRun DocumentURI nat | StartRun nat DocumentURI EventType

text \<open>\<open>ScheduleLinting\<close> at time \<open>now\<close>: an active timer is reset to the full debounce
  and keeps its callback; otherwise a timer is armed for this \<open>uri\<close> and \<open>eventType\<close>.\<close>

definition ScheduleLinting :: "LspHandler \<Rightarrow> nat \<Rightarrow> DocumentURI \<Rightarrow> EventType \<Rightarrow> LspHandler" where
  "ScheduleLinting h now uri eventType =
     (case lintTimer h of
        Some t \<Rightarrow> h\<lparr>lintTimer := Some (t\<lparr>deadline := now + lintDebounce h\<rparr>)\<rparr>
      | None \<Rightarrow> h\<lparr>lintTimer := Some \<lparr>deadline = now + lintDebounce h, timer_uri = uri,
                                      timer_event = eventType\<rparr>\<rparr>)"

text \<open>The callback of the timer: the slot is cleared, the run registered for the URI is
  cancelled, the new run is registered and started.\<close>

definition timer_fires :: "LspHandler \<Rightarrow> lint_timer \<Rightarrow> sched_event list \<times> LspHandler" where
  "timer_fires h t =
     (let h = h\<lparr>lintTimer := None\<rparr>;
          cancels = (case running h (timer_uri t) of
                       Some run \<Rightarrow> [CancelRun (timer_uri t) run] | None \<Rightarrow> []);
          h = h\<lparr>running := (running h)(timer_uri t \<mapsto> nextRun h), nextRun := nextRun h + 1\<rparr>
      in (cancels @ [StartRun (deadline t) (timer_uri t) (timer_event t)], h))"

text \<open>Time passes up to \<open>now\<close>: a timer whose deadline has come fires.\<close>

definition advance :: "LspHandler \<Rightarrow> nat \<Rightarrow> sched_event list \<times> LspHandler" where
  "advance h now =
     (case lintTimer h of
        Some t \<Rightarrow> (if deadline t \<le> now then timer_fires h t else ([], h))
      | None \<Rightarrow> ([], h))"

text \<open>A sequence of calls \<open>(time, uri, eventType)\<close> in the order of their times, and
  then the time after the last call, in which a timer still armed fires.\<close>

fun run_calls ::
    "LspHandler \<Rightarrow> (nat \<times> DocumentURI \<times> EventType) list \<Rightarrow> sched_event list \<times> LspHandler" where
  "run_calls h [] = ([], h)"
| "run_calls h ((now, uri, eventType) # calls) =
     (case advance h now of
        (evs, h1) \<Rightarrow>
          (case run_calls (ScheduleLinting h1 now uri eventType) calls of
             (evs', h2) \<Rightarrow> (evs @ evs', h2)))"

definition lint_schedule ::
    "LspHandler \<Rightarrow> (nat \<times> DocumentURI \<times> EventType) list \<Rightarrow> sched_event list" where
  "lint_schedule h calls =
     (case run_calls h calls of
        (evs, h1) \<Rightarrow>
          (case lintTimer h1 of
             Some t \<Rightarrow> evs @ fst (timer_fires h1 t)
           | None \<Rightarrow> evs))"

definition idleHandler :: "nat \<Rightarrow> LspHandler" where
  "idleHandler d = \<lparr>lintTimer = None, lintDebounce = d, running = Map.empty, nextRun = 0\<rparr>"

section \<open>Text edits (core/diff_test.go, core/diff.go)\<close>

text \<open>
  \<open>applyEdits\<close> of core/diff_test.go, the function with which the tests apply a list
  of edits to a text. \<open>strings.SplitAfter(text, "\n")\<close> cuts after every line feed
  and always yields a last piece, empty when the text is empty or ends in a line feed.
  \<open>lines_between lines lo hi\<close> is what the loops \<open>for i := lo; i < hi; i++\<close> write:
  the lines from \<open>lo\<close> up to \<open>hi\<close> that exist; reading a line at a negative index
  panics. The character fields of the ranges are not read.
\<close>

fun SplitAfter_newline :: "string \<Rightarrow> string list" where
  "SplitAfter_newline [] = [[]]"
| "SplitAfter_newline (c # cs) =
     (if c = CHR 0x0A then [c] # SplitAfter_newline cs
      else (case SplitAfter_newline cs of [] \<Rightarrow> [[c]] | l # ls \<Rightarrow> (c # l) # ls))"

definition lines_between :: "string list \<Rightarrow> int \<Rightarrow> int \<Rightarrow> go_panic + string" where
  "lines_between lines lo hi =
     (if lo < hi \<and> lo < int (length lines) \<and> lo < 0 then Inl IndexOutOfRange
      else Inr (concat (take (nat hi - nat lo) (drop (nat lo) lines))))"

fun applyEdits_loop :: "string list \<Rightarrow> int \<Rightarrow> string \<Rightarrow> TextEdit list \<Rightarrow> go_panic + string" where
  "applyEdits_loop lines lastLine result [] =
     (case lines_between lines lastLine (int (length lines)) of
        Inl p \<Rightarrow> Inl p
      | Inr s \<Rightarrow> Inr (result @ s))"
| "applyEdits_loop lines lastLine result (e # edits) =
     (case lines_between lines lastLine (Line (Start (ERange e))) of
        Inl p \<Rightarrow> Inl p
      | Inr s \<Rightarrow> applyEdits_loop lines (Line (End (ERange e))) (result @ s @ NewText e) edits)"

definition applyEdits :: "string \<Rightarrow> TextEdit list \<Rightarrow> go_panic + string" where
  "applyEdits text edits = applyEdits_loop (SplitAfter_newline text) 0 [] edits"

text \<open>
  Modelled from the spec: \<open>ComputeEdits\<close> of core/diff.go, whose source is missing; only
  its tests and its caller are present. The specification asks for a minimal line diff turned into text edits that
  start and end at character 0 of a line: a deletion has an empty \<open>newText\<close> and a
  non-empty range, an insertion a zero-width range, adjacent changes are coalesced
  into one replacement, and equal inputs give no edit. \<open>splitLines\<close> cuts a text into
  its lines, each with its line feed, the last one possibly without; \<open>line_diff\<close> is a
  shortest script of kept, deleted and inserted lines (it keeps equal heads and
  otherwise takes the cheaper of deleting and inserting); \<open>hunks\<close> turns every maximal
  run of deletions and insertions into one edit, \<open>line\<close> being the current line of the
  old text and the optional pair the start and the new text of the run that is open.
\<close>

fun splitLines :: "string \<Rightarrow> string list" where
  "splitLines [] = []"
| "splitLines (c # cs) =
     (if c = CHR 0x0A then [c] # splitLines cs
      else (case splitLines cs of [] \<Rightarrow> [[c]] | l # ls \<Rightarrow> (c # l) # ls))"

datatype line_op = Keep string | Del string | Ins string

fun cost :: "line_op list \<Rightarrow> nat" where
  "cost [] = 0"
| "cost (Keep l # ops) = cost ops"
| "cost (op # ops) = Suc (cost ops)"

fun line_diff :: "string list \<Rightarrow> string list \<Rightarrow> line_op list" where
  "line_diff [] ys = map Ins ys"
| "line_diff (x # xs) [] = map Del (x # xs)"
| "line_diff (x # xs) (y # ys) =
     (if x = y then Keep x # line_diff xs ys
      else (let d = Del x # line_diff xs (y # ys);
                i = Ins y # line_diff (x # xs) ys
            in if cost d \<le> cost i then d else i))"

definition lineEdit :: "int \<Rightarrow> int \<Rightarrow> string \<Rightarrow> TextEdit" where
  "lineEdit from to newText =
     \<lparr>ERange = \<lparr>Start = \<lparr>Line = from, Character = 0\<rparr>, End = \<lparr>Line = to, Character = 0\<rparr>\<rparr>,
      NewText = newText\<rparr>"

fun hunks :: "int \<Rightarrow> (int \<times> string) option \<Rightarrow> line_op list \<Rightarrow> TextEdit list" where
  "hunks line None [] = []"
| "hunks line (Some (start, newText)) [] = [lineEdit start line newText]"
| "hunks line None (Keep l # ops) = hunks (line + 1) None ops"
| "hunks line (Some (start, newText)) (Keep l # ops) =
     lineEdit start line newText # hunks (line + 1) None ops"
| "hunks line None (Del l # ops) = hunks (line + 1) (Some (line, [])) ops"
| "hunks line (Some (start, newText)) (Del l # ops) = hunks (line + 1) (Some (start, newText)) ops"
| "hunks line None (Ins l # ops) = hunks line (Some (line, l)) ops"
| "hunks line (Some (start, newText)) (Ins l # ops) = hunks line (Some (start, newText @ l)) ops"

text \<open>Modelled from the spec: \<open>ComputeEdits(uri, before, after)\<close>; the error that the Go
  function returns next to the edits is always nil in the specification.\<close>

definition ComputeEdits :: "DocumentURI \<Rightarrow> string \<Rightarrow> string \<Rightarrow> TextEdit list" where
  "ComputeEdits uri before after = hunks 0 None (line_diff (splitLines before) (splitLines after))"


text \<open>The old and the new lines that a script stands for.\<close>

fun before_of :: "line_op list \<Rightarrow> string list" where
  "before_of [] = []"
| "before_of (Keep l # ops) = l # before_of ops"
| "before_of (Del l # ops) = l # before_of ops"
| "before_of (Ins l # ops) = before_of ops"

fun after_of :: "line_op list \<Rightarrow> string list" where
  "after_of [] = []"
| "after_of (Keep l # ops) = l # after_of ops"
| "after_of (Del l # ops) = after_of ops"
| "after_of (Ins l # ops) = l # after_of ops"



section \<open>Properties: severity\<close>

lemma getSeverity_no_map:
  "getSeverity t [] d =
     Inr (if t = rune CHR ''E'' \<or> t = rune CHR ''e'' then DiagError
          else if t = rune CHR ''W'' \<or> t = rune CHR ''w'' then DiagWarning
          else if t = rune CHR ''I'' \<or> t = rune CHR ''i'' then DiagInformation
          else if t = rune CHR ''N'' \<or> t = rune CHR ''n'' then DiagHint
          else if d \<noteq> 0 then d else DiagError)"
  by (simp add: getSeverity_def)

lemma getSeverity_remap:
  "getSeverity (rune CHR ''R'') [(''R'', ''I'')] 0 = Inr DiagInformation"
  by (simp add: getSeverity_def string_of_rune_def rune_def byte_def char_of_def
      DiagInformation_def)

text \<open>
  C3. The claim gives a severity for every type character, every category map and every
  default severity. With the category map \<open>{"R": "I"}\<close> of the repository's own test and
  an entry of type \<open>E\<close>, the key \<open>"E"\<close> is absent, the lookup yields the empty string,
  and \<open>[]rune("")[0]\<close> panics: no severity is computed.
\<close>

theorem getSeverity_unmapped_type_panics:
  "getSeverity (rune CHR ''E'') [(''R'', ''I'')] 0 = Inl IndexOutOfRange"
  by (simp add: getSeverity_def string_of_rune_def rune_def byte_def char_of_def)

section \<open>Properties: exit classification of a lint command\<close>

lemma ExitCode_range: "ExitCode ws = - 1 \<or> (0 \<le> ExitCode ws \<and> ExitCode ws < 256)"
  by (cases ws) auto

lemma ExitCode_known: "ExitCode ws \<noteq> unknownExitCode"
  using ExitCode_range [of ws] by (auto simp: unknownExitCode_def)

text \<open>
  C4. The classification of \<open>runLintCommand\<close>. Exit code zero is the nil error of
  \<open>CombinedOutput\<close>: the output is returned for parsing only with \<open>LintIgnoreExitCode\<close>,
  otherwise nothing is returned and there is no error. A child with a negative exit
  code yields no output and no error; one with a positive exit code yields its output
  and no error. An error that is no \<open>ExitError\<close> leaves the exit code undetermined and
  is returned as the error.
\<close>

theorem runLintCommand_classification:
  "runLintCommand (out, None) cfg =
      (if LintIgnoreExitCode cfg then (Some out, None) else (None, None))
   \<and> (ExitCode ws1 < 0 \<longrightarrow> runLintCommand (out, Some (ExitError ws1)) cfg = (None, None))
   \<and> (0 < ExitCode ws2 \<longrightarrow> runLintCommand (out, Some (ExitError ws2)) cfg = (Some out, None))
   \<and> runLintCommand (out, Some (OtherError m)) cfg = (Some out, Some (OtherError m))"
  using ExitCode_known [of ws1] ExitCode_known [of ws2]
  by (simp add: runLintCommand_def)

theorem runLintCommand_classification_witness:
  "ExitCode Signaled < 0 \<and> 0 < ExitCode (Exited 2)
   \<and> runLintCommand (''a:1:b'', None) zeroLanguage = (None, None)
   \<and> runLintCommand (''a:1:b'', Some (ExitError Signaled)) zeroLanguage = (None, None)
   \<and> runLintCommand (''a:1:b'', Some (ExitError (Exited 2))) zeroLanguage = (Some ''a:1:b'', None)
   \<and> runLintCommand (''a:1:b'', Some (OtherError ''not found'')) zeroLanguage
        = (Some ''a:1:b'', Some (OtherError ''not found''))"
proof -
  have neg: "ExitCode Signaled < 0" and pos: "0 < ExitCode (Exited 2)"
    by simp_all
  show ?thesis
    using neg pos
      runLintCommand_classification [of "''a:1:b''" zeroLanguage Signaled "Exited 2" "''not found''"]
    by (simp add: zeroLanguage_def)
qed

section \<open>Properties: whole-line diagnostics\<close>

text \<open>
  C7. For an entry with \<open>Col = 0\<close> the diagnostic starts and ends at character 0,
  whatever \<open>LintOffsetColumns\<close> is. The diagnostic exists whenever the severity of the
  entry is computed.
\<close>

theorem column_zero_immunity:
  assumes "Col entry = 0"
    and "getSeverity (Type entry) (LintCategoryMap config) (LintSeverity config) = Inr sev"
  shows "\<exists>d. parseEfmEntryToDiagnostic W entry config f = Inr d
           \<and> Character (Start (DRange d)) = 0 \<and> Character (End (DRange d)) = 0"
  using assms by (simp add: parseEfmEntryToDiagnostic_def Let_def int64_def)

theorem column_zero_immunity_witness:
  "Col \<lparr>Filename = ''foo'', Lnum = 2, EndLnum = 0, Col = 0, EndCol = 0, Nr = 0,
        EText = ''msg'', Type = rune CHR ''W'', Valid = True\<rparr> = 0
   \<and> getSeverity (rune CHR ''W'') [] 0 = Inr DiagWarning
   \<and> (\<exists>d. parseEfmEntryToDiagnostic (\<lambda>t p. ''word'')
             \<lparr>Filename = ''foo'', Lnum = 2, EndLnum = 0, Col = 0, EndCol = 0, Nr = 0,
              EText = ''msg'', Type = rune CHR ''W'', Valid = True\<rparr>
             (zeroLanguage\<lparr>LintOffsetColumns := 5\<rparr>)
             \<lparr>Version = 1, NormalizedFilename = ''foo'', LanguageID = ''vim'',
              Text = ''a b'', Uri = ''file:///foo''\<rparr> = Inr d
          \<and> Character (Start (DRange d)) = 0 \<and> Character (End (DRange d)) = 0)"
proof -
  let ?e = "\<lparr>Filename = ''foo'', Lnum = 2, EndLnum = 0, Col = 0, EndCol = 0, Nr = 0,
        EText = ''msg'', Type = rune CHR ''W'', Valid = True\<rparr>"
  let ?c = "zeroLanguage\<lparr>LintOffsetColumns := 5\<rparr>"
  have c: "Col ?e = 0" by simp
  have s: "getSeverity (Type ?e) (LintCategoryMap ?c) (LintSeverity ?c) = Inr DiagWarning"
    by (simp add: getSeverity_no_map zeroLanguage_def rune_def)
  show ?thesis
    using c s column_zero_immunity [OF c s]
    by (simp add: zeroLanguage_def)
qed

section \<open>Properties: document versions\<close>








section \<open>Properties: white space and command strings\<close>














section \<open>Properties: the root resolver\<close>

lemma backtrack_le: "backtrack out dotdot w \<le> w"
proof (induction out dotdot w rule: backtrack.induct)
  case (1 out dotdot w)
  show ?case
  proof (cases "dotdot < w \<and> out ! w \<noteq> CHR ''/''")
    case True
    then have "backtrack out dotdot w = backtrack out dotdot (w - 1)"
      by (subst backtrack.simps) simp
    moreover have "backtrack out dotdot (w - 1) \<le> w - 1" using 1 True by simp
    ultimately show ?thesis by simp
  next
    case False
    then show ?thesis by (subst backtrack.simps) auto
  qed
qed

lemma dropWhile_slash_head:
  "dropWhile (\<lambda>x. x \<noteq> CHR ''/'') xs = [] \<or> hd (dropWhile (\<lambda>x. x \<noteq> CHR ''/'') xs) = CHR ''/''"
  using hd_dropWhile [of "\<lambda>x. x \<noteq> CHR ''/''" xs] by auto

lemma last_slash_dropWhile:
  assumes "xs \<noteq> []" "last xs = CHR ''/''"
  shows "dropWhile (\<lambda>x. x \<noteq> CHR ''/'') xs \<noteq> []
         \<and> last (dropWhile (\<lambda>x. x \<noteq> CHR ''/'') xs) = CHR ''/''"
proof -
  have "CHR ''/'' \<in> set xs" using assms last_in_set by metis
  then have ne: "dropWhile (\<lambda>x. x \<noteq> CHR ''/'') xs \<noteq> []" by (simp add: dropWhile_eq_Nil_conv) 
  have "xs = takeWhile (\<lambda>x. x \<noteq> CHR ''/'') xs @ dropWhile (\<lambda>x. x \<noteq> CHR ''/'') xs" by simp
  then have "last xs = last (dropWhile (\<lambda>x. x \<noteq> CHR ''/'') xs)"
    using ne by (metis last_appendR)
  then show ?thesis using ne assms by simp
qed

lemma clean_loop_length:
  "length out \<le> n \<Longrightarrow>
   p = [] \<or> hd p = CHR ''/'' \<or> length out < n \<or> length out = (if rooted then 1 else 0) \<Longrightarrow>
   length (clean_loop rooted out dotdot p) \<le> n + length p
   \<and> (p \<noteq> [] \<and> last p = CHR ''/'' \<longrightarrow> length (clean_loop rooted out dotdot p) < n + length p)"
proof (induction rooted out dotdot p arbitrary: n rule: clean_loop.induct)
  case (1 rooted out dotdot)
  then show ?case by simp
next
  case (2 rooted out dotdot c cs)
  let ?dots = "c = CHR ''.'' \<and> cs \<noteq> [] \<and> hd cs = CHR ''.'' \<and> (tl cs = [] \<or> hd (tl cs) = CHR ''/'')"
  consider (slash) "c = CHR ''/''"
    | (dot) "c \<noteq> CHR ''/''" "c = CHR ''.'' \<and> (cs = [] \<or> hd cs = CHR ''/'')"
    | (dotdot) "c \<noteq> CHR ''/''" "\<not> (c = CHR ''.'' \<and> (cs = [] \<or> hd cs = CHR ''/''))" "?dots"
    | (elem) "c \<noteq> CHR ''/''" "\<not> (c = CHR ''.'' \<and> (cs = [] \<or> hd cs = CHR ''/''))" "\<not> ?dots"
    by blast
  then show ?case
  proof cases
    case slash
    have pre1: "length out \<le> Suc n" using "2.prems" by simp
    have pre2: "cs = [] \<or> hd cs = CHR ''/'' \<or> length out < Suc n \<or> length out = (if rooted then 1 else 0)"
      using "2.prems" by simp
    from "2.IH"(1) [OF slash pre1 pre2] slash "2.prems" show ?thesis
      by (cases "cs = []") auto
  next
    case dot
    have pre1: "length out \<le> Suc n" using "2.prems" by simp
    have pre2: "cs = [] \<or> hd cs = CHR ''/'' \<or> length out < Suc n \<or> length out = (if rooted then 1 else 0)"
      using dot by blast
    from "2.IH"(2) [OF dot(1) dot(2) pre1 pre2] dot show ?thesis
      by (cases "cs = []") auto
  next
    case dotdot
    obtain d rest where cs: "cs = d # rest" using dotdot(3) by (cases cs) auto
    have rest: "rest = [] \<or> hd rest = CHR ''/''" using dotdot(3) cs by simp
    have strict: "length out < n \<or> length out = (if rooted then 1 else 0)"
      using "2.prems" dotdot(1) by simp
    show ?thesis
    proof (cases "dotdot < length out")
      case True
      let ?o = "take (backtrack out dotdot (length out - 1)) out"
      have pre1: "length ?o \<le> n + 2" using "2.prems"(1) by simp
      have pre2: "tl cs = [] \<or> hd (tl cs) = CHR ''/'' \<or> length ?o < n + 2 \<or> length ?o = (if rooted then 1 else 0)"
        using rest cs by auto
      from "2.IH"(3) [OF dotdot(1) dotdot(2) dotdot(3) True pre1 pre2] dotdot True cs
      show ?thesis by (cases "rest = []") auto
    next
      case False
      show ?thesis
      proof (cases rooted)
        case True
        have pre1: "length out \<le> n + 2" using "2.prems"(1) by simp
        have pre2: "tl cs = [] \<or> hd (tl cs) = CHR ''/'' \<or> length out < n + 2 \<or> length out = (if rooted then 1 else 0)"
          using rest cs by auto
        have nr: "\<not> \<not> rooted" using True by simp
        from "2.IH"(5) [OF dotdot(1) dotdot(2) dotdot(3) False nr pre1 pre2] dotdot False True cs
        show ?thesis by (cases "rest = []") auto
      next
        case nrooted: False
        let ?o = "(if out \<noteq> [] then out @ ''/'' else out) @ ''..''"
        have pre1: "length ?o \<le> n + 2" using "2.prems"(1) strict nrooted by auto
        have pre2: "tl cs = [] \<or> hd (tl cs) = CHR ''/'' \<or> length ?o < n + 2 \<or> length ?o = (if rooted then 1 else 0)"
          using rest cs by auto
        from "2.IH"(4) [OF dotdot(1) dotdot(2) dotdot(3) False nrooted refl pre1 pre2] dotdot False nrooted cs
        show ?thesis by (cases "rest = []") (auto simp: Let_def)
      qed
    qed
  next
    case elem
    let ?o = "(if (rooted \<and> length out \<noteq> 1) \<or> (\<not> rooted \<and> length out \<noteq> 0) then out @ ''/'' else out)"
    let ?e = "takeWhile (\<lambda>x. x \<noteq> CHR ''/'') (c # cs)"
    let ?r = "dropWhile (\<lambda>x. x \<noteq> CHR ''/'') (c # cs)"
    have strict: "length out < n \<or> length out = (if rooted then 1 else 0)"
      using "2.prems" elem(1) by simp
    have len: "length ?e + length ?r = Suc (length cs)"
      using takeWhile_dropWhile_id [of "\<lambda>x. x \<noteq> CHR ''/''" "c # cs"]
      by (metis length_append length_Cons)
    have pre1: "length (?o @ ?e) \<le> n + length ?e" using "2.prems"(1) strict by auto
    have pre2: "?r = [] \<or> hd ?r = CHR ''/'' \<or> length (?o @ ?e) < n + length ?e
                \<or> length (?o @ ?e) = (if rooted then 1 else 0)"
      using dropWhile_slash_head [of "c # cs"] by blast
    have IH: "length (clean_loop rooted (?o @ ?e) dotdot ?r) \<le> n + length ?e + length ?r
      \<and> (?r \<noteq> [] \<and> last ?r = CHR ''/'' \<longrightarrow> length (clean_loop rooted (?o @ ?e) dotdot ?r) < n + length ?e + length ?r)"
      using "2.IH"(6) [OF elem(1) elem(2) elem(3) refl pre1 pre2] .
    have eq: "clean_loop rooted out dotdot (c # cs) = clean_loop rooted (?o @ ?e) dotdot ?r"
      by (simp only: clean_loop.simps(2) elem if_False Let_def)
    have lastr: "last (c # cs) = CHR ''/'' \<longrightarrow> ?r \<noteq> [] \<and> last ?r = CHR ''/''"
      using last_slash_dropWhile [of "c # cs"] by blast
    show ?thesis unfolding eq using IH len lastr by auto
  qed
qed

lemma Clean_length:
  assumes "path \<noteq> []"
  shows "length (Clean path) \<le> length path
         \<and> (2 \<le> length path \<and> last path = CHR ''/'' \<longrightarrow> length (Clean path) < length path)"
proof -
  obtain c t where path: "path = c # t" using assms by (cases path) auto
  show ?thesis
  proof (cases "c = CHR ''/''")
    case True
    have "length (clean_loop True ''/'' 1 t) \<le> 1 + length t
      \<and> (t \<noteq> [] \<and> last t = CHR ''/'' \<longrightarrow> length (clean_loop True ''/'' 1 t) < 1 + length t)"
      by (rule clean_loop_length) simp_all
    then show ?thesis using path True by (auto simp: Clean_def Let_def)
  next
    case False
    have "length (clean_loop False [] 0 path) \<le> 0 + length path
      \<and> (path \<noteq> [] \<and> last path = CHR ''/'' \<longrightarrow> length (clean_loop False [] 0 path) < 0 + length path)"
      by (rule clean_loop_length) simp_all
    then show ?thesis using path False by (auto simp: Clean_def Let_def)
  qed
qed

lemma walk_rank_le: "walk_rank d \<le> length d + 1"
  by (auto simp: walk_rank_def)

lemma Dir_progress: "Dir d = d \<or> walk_rank (Dir d) < walk_rank d"
proof (cases "CHR ''/'' \<in> set d")
  case False
  then have "dropWhile (\<lambda>c. c \<noteq> CHR ''/'') (rev d) = []"
    by (auto simp: dropWhile_eq_Nil_conv)
  then have "Dir d = ''.''" by (simp add: Dir_def Clean_def)
  then show ?thesis using False by (auto simp: walk_rank_def)
next
  case True
  let ?p = "rev (dropWhile (\<lambda>c. c \<noteq> CHR ''/'') (rev d))"
  have ne: "dropWhile (\<lambda>c. c \<noteq> CHR ''/'') (rev d) \<noteq> []"
    using True by (auto simp: dropWhile_eq_Nil_conv)
  then have pne: "?p \<noteq> []" by simp
  have lastp: "last ?p = CHR ''/''"
    using ne hd_dropWhile [of "\<lambda>c. c \<noteq> CHR ''/''" "rev d"] by (simp add: last_rev)
  have lenp: "length ?p \<le> length d"
    using length_dropWhile_le [of "\<lambda>c. c \<noteq> CHR ''/''" "rev d"] by simp
  have rankd: "walk_rank d = length d + 1" using True by (simp add: walk_rank_def)
  show ?thesis
  proof (cases "2 \<le> length ?p")
    case True
    then have "length (Clean ?p) < length ?p" using Clean_length [OF pne] lastp by blast
    then have "walk_rank (Dir d) < walk_rank d"
      using walk_rank_le [of "Dir d"] lenp rankd by (simp add: Dir_def)
    then show ?thesis ..
  next
    case False
    moreover have "length ?p \<noteq> 0" using pne by simp
    ultimately have "length ?p = 1" by linarith
    then have p: "?p = ''/''" using lastp by (cases ?p) auto
    then have D: "Dir d = ''/''" by (simp add: Dir_def Clean_def)
    have "rev d = takeWhile (\<lambda>c. c \<noteq> CHR ''/'') (rev d) @ rev ?p" by simp
    then have "rev d = takeWhile (\<lambda>c. c \<noteq> CHR ''/'') (rev d) @ ''/''" using p by simp
    then have d: "d = ''/'' @ rev (takeWhile (\<lambda>c. c \<noteq> CHR ''/'') (rev d))"
      by (metis rev_append rev_rev_ident rev_singleton_conv)
    show ?thesis
    proof (cases "takeWhile (\<lambda>c. c \<noteq> CHR ''/'') (rev d) = []")
      case True
      then show ?thesis using d D by simp
    next
      case False
      then have "2 \<le> length d" using d
        by (metis One_nat_def Suc_1 Suc_leI length_Cons length_0_conv length_append length_rev list.size(3) not_less_eq_eq plus_1_eq_Suc le_add1 length_greater_0_conv add_Suc_right add_Suc)
      then show ?thesis using D rankd by (simp add: walk_rank_def)
    qed
  qed
qed


lemma Dir_fixpoint: "\<exists>n. Dir ((Dir ^^ n) d) = (Dir ^^ n) d"
proof (induction d rule: measure_induct_rule [where f = walk_rank])
  case (less d)
  show ?case
  proof (cases "Dir d = d")
    case True
    then have "Dir ((Dir ^^ 0) d) = (Dir ^^ 0) d" by simp
    then show ?thesis by blast
  next
    case False
    then have "walk_rank (Dir d) < walk_rank d" using Dir_progress [of d] by simp
    then obtain n where "Dir ((Dir ^^ n) (Dir d)) = (Dir ^^ n) (Dir d)" using less by blast
    then have "Dir ((Dir ^^ Suc n) d) = (Dir ^^ Suc n) d" by (simp add: funpow_swap1)
    then show ?thesis by blast
  qed
qed

lemma walk_result:
  "Dir ((Dir ^^ n) dir) = (Dir ^^ n) dir \<Longrightarrow>
   \<exists>r. matchRootPath_walk fs markers dir prev = Some r
     \<and> (r = [] \<or> (\<exists>k. k \<le> n \<and> r = (Dir ^^ k) dir \<and> dirMatches fs markers r))"
proof (induction n arbitrary: dir prev)
  case 0
  then have fixd: "Dir dir = dir" by simp
  have stop: "matchRootPath_walk fs markers dir dir = Some []"
    by (subst matchRootPath_walk.simps) simp
  show ?case
  proof (cases "dir \<noteq> prev \<and> dirMatches fs markers dir")
    case True
    then have "matchRootPath_walk fs markers dir prev = Some ((Dir ^^ 0) dir)"
      by (subst matchRootPath_walk.simps) simp
    then show ?thesis using True by force
  next
    case False
    then have "matchRootPath_walk fs markers dir prev = Some []"
      using fixd stop by (subst matchRootPath_walk.simps) auto
    then show ?thesis by simp
  qed
next
  case (Suc n)
  then have fixd: "Dir ((Dir ^^ n) (Dir dir)) = (Dir ^^ n) (Dir dir)"
    by (simp add: funpow_swap1)
  show ?case
  proof (cases "dir \<noteq> prev")
    case False
    then have "matchRootPath_walk fs markers dir prev = Some []"
      by (subst matchRootPath_walk.simps) simp
    then show ?thesis by simp
  next
    case neq: True
    show ?thesis
    proof (cases "dirMatches fs markers dir")
      case True
      then have "matchRootPath_walk fs markers dir prev = Some ((Dir ^^ 0) dir)"
        using neq by (subst matchRootPath_walk.simps) simp
      then show ?thesis using True by force
    next
      case False
      have step: "matchRootPath_walk fs markers dir prev
                    = matchRootPath_walk fs markers (Dir dir) dir"
        using neq False by (subst matchRootPath_walk.simps) simp
      from Suc.IH [OF fixd, of dir] obtain r where
        r: "matchRootPath_walk fs markers (Dir dir) dir = Some r"
        and res: "r = [] \<or> (\<exists>k. k \<le> n \<and> r = (Dir ^^ k) (Dir dir) \<and> dirMatches fs markers r)"
        by blast
      from res have "r = [] \<or> (\<exists>k. k \<le> Suc n \<and> r = (Dir ^^ k) dir \<and> dirMatches fs markers r)"
      proof
        assume "r = []"
        then show ?thesis by simp
      next
        assume "\<exists>k. k \<le> n \<and> r = (Dir ^^ k) (Dir dir) \<and> dirMatches fs markers r"
        then obtain k where "k \<le> n" "r = (Dir ^^ k) (Dir dir)" "dirMatches fs markers r"
          by blast
        then have "Suc k \<le> Suc n \<and> r = (Dir ^^ Suc k) dir \<and> dirMatches fs markers r"
          by (simp add: funpow_swap1)
        then show ?thesis by blast
      qed
      then show ?thesis using step r by simp
    qed
  qed
qed

text \<open>
  C10. The walk of \<open>matchRootPath\<close> returns for every file name, every list of
  markers and every file system: the directories \<open>Dir fname\<close>, \<open>Dir (Dir fname)\<close>, ...
  reach a fixed point of \<open>Dir\<close> after finitely many steps \<open>n\<close> (each step before it
  lowers \<open>walk_rank\<close>), and the result is the empty string or one of the directories
  visited up to there, in which a marker matches.
\<close>

theorem matchRootPath_terminates:
  "\<exists>r n. matchRootPath_walk fs markers (Dir fname) [] = Some r
     \<and> matchRootPath fs fname markers = r
     \<and> Dir ((Dir ^^ n) (Dir fname)) = (Dir ^^ n) (Dir fname)
     \<and> (r = [] \<or> (\<exists>k. k \<le> n \<and> r = (Dir ^^ k) (Dir fname) \<and> dirMatches fs markers r))"
proof -
  obtain n where n: "Dir ((Dir ^^ n) (Dir fname)) = (Dir ^^ n) (Dir fname)"
    using Dir_fixpoint by blast
  from walk_result [OF n, of fs markers "[]"] obtain r where
    r: "matchRootPath_walk fs markers (Dir fname) [] = Some r"
    and res: "r = [] \<or> (\<exists>k. k \<le> n \<and> r = (Dir ^^ k) (Dir fname) \<and> dirMatches fs markers r)"
    by blast
  have "matchRootPath fs fname markers = r" using r by (simp add: matchRootPath_def)
  then show ?thesis using r n res by blast
qed

section \<open>Properties: the formatting pipeline\<close>









section \<open>Properties: the linting pipeline\<close>

text \<open>
  C2. A run of \<open>RunAllLinters\<close> on a document of the store that selects at least one
  configuration sends, before every other message, the diagnostics message for the URI
  with no diagnostics and the version of the document; this holds for every order in
  which the goroutines send. So that message is the first of its diagnostics messages.
\<close>

theorem reset_before_publish:
  assumes "files h uri = Some f"
    and "getLintConfigsForDocument (FS w) (NormalizedFilename f) (LanguageID f) (configs h)
           eventType \<noteq> []"
  shows "\<exists>rest others status.
           RunAllLinters w h token uri eventType order
             = (EvDiagnostics \<lparr>URI = uri, Diagnostics = [], PVersion = Version f\<rparr> # rest, status)
           \<and> diagnostics_of (fst (RunAllLinters w h token uri eventType order))
             = \<lparr>URI = uri, Diagnostics = [], PVersion = Version f\<rparr> # others"
  using assms
  by (auto simp: RunAllLinters_def Let_def split: prod.splits option.splits)

theorem reset_before_publish_witness:
  "files example_handler ''file:///foo'' = Some example_file
   \<and> getLintConfigsForDocument (FS example_world) (NormalizedFilename example_file)
         (LanguageID example_file) (configs example_handler) EventTypeSave \<noteq> []
   \<and> diagnostics_of (fst (RunAllLinters example_world example_handler ''token'' ''file:///foo''
         EventTypeSave [0]))
       = [\<lparr>URI = ''file:///foo'', Diagnostics = [], PVersion = 7\<rparr>,
          \<lparr>URI = ''file:///foo'', Diagnostics =
             [\<lparr>DRange = \<lparr>Start = \<lparr>Line = 1, Character = 0\<rparr>, End = \<lparr>Line = 1, Character = 0\<rparr>\<rparr>,
               Severity = 1, Code = None, Source = None, Message = ''msg''\<rparr>],
            PVersion = 7\<rparr>]"
proof -
  have f: "files example_handler ''file:///foo'' = Some example_file"
    by (simp add: example_handler_def)
  have c: "getLintConfigsForDocument (FS example_world) (NormalizedFilename example_file)
         (LanguageID example_file) (configs example_handler) EventTypeSave \<noteq> []"
    by code_simp
  have r: "diagnostics_of (fst (RunAllLinters example_world example_handler ''token'' ''file:///foo''
         EventTypeSave [0]))
       = [\<lparr>URI = ''file:///foo'', Diagnostics = [], PVersion = 7\<rparr>,
          \<lparr>URI = ''file:///foo'', Diagnostics =
             [\<lparr>DRange = \<lparr>Start = \<lparr>Line = 1, Character = 0\<rparr>, End = \<lparr>Line = 1, Character = 0\<rparr>\<rparr>,
               Severity = 1, Code = None, Source = None, Message = ''msg''\<rparr>],
            PVersion = 7\<rparr>]"
    by code_simp
  show ?thesis
    using f c r reset_before_publish [OF f c, of "''token''" "[0]"] by simp
qed

section \<open>Properties: the lint scheduler\<close>

text \<open>
  C5, as stated: triggers are coalesced per document, and a call for one document does
  not suppress the lint run of another. With a debounce of 5 ticks, a call for document
  \<open>a\<close> at time 0 and a call for document \<open>b\<close> at time 1 start a single run, at time 6,
  for \<open>a\<close>: the call for \<open>b\<close> only resets the one timer, and no run for \<open>b\<close> follows.
\<close>

theorem lint_debounce_other_document_counterexample:
  "lint_schedule (idleHandler 5)
     [(0, ''file:///a'', EventTypeChange), (1, ''file:///b'', EventTypeChange)]
   = [StartRun 6 ''file:///a'' EventTypeChange]"
  by code_simp

text \<open>
  C5, amended: triggers are coalesced through the one lint timer of the handler, for
  all documents together. Two calls of \<open>ScheduleLinting\<close> within the debounce window,
  for the same or for different URIs, start only one lint run; it starts once
  \<open>lintDebounce\<close> has elapsed since the last call, for the URI and the event type of
  the first call, after cancelling the run registered for that URI, if any.
\<close>

theorem lint_debounce_single_timer:
  assumes "lintTimer h = None" and "t1 \<le> t2" and "t2 < t1 + lintDebounce h"
  shows "\<exists>cancels. lint_schedule h [(t1, uri1, ev1), (t2, uri2, ev2)]
           = cancels @ [StartRun (t2 + lintDebounce h) uri1 ev1]
         \<and> (\<forall>e \<in> set cancels. \<exists>run. e = CancelRun uri1 run)"
  using assms
  by (auto simp: lint_schedule_def advance_def ScheduleLinting_def timer_fires_def Let_def
      split: option.splits)

theorem lint_debounce_single_timer_witness:
  "lintTimer (idleHandler 5) = None \<and> (10::nat) \<le> 12 \<and> 12 < 10 + lintDebounce (idleHandler 5)
   \<and> lint_schedule (idleHandler 5)
        [(10, ''file:///a'', EventTypeOpen), (12, ''file:///a'', EventTypeChange)]
      = [StartRun 17 ''file:///a'' EventTypeOpen]"
proof -
  have a: "lintTimer (idleHandler 5) = None" by (simp add: idleHandler_def)
  have b: "(10::nat) \<le> 12" by simp
  have c: "12 < 10 + lintDebounce (idleHandler 5)" by (simp add: idleHandler_def)
  have r: "lint_schedule (idleHandler 5)
        [(10, ''file:///a'', EventTypeOpen), (12, ''file:///a'', EventTypeChange)]
      = [StartRun 17 ''file:///a'' EventTypeOpen]"
    by code_simp
  show ?thesis
    using a b c r
      lint_debounce_single_timer [OF a b c, of "''file:///a''" EventTypeOpen "''file:///a''"
        EventTypeChange]
    by simp
qed

section \<open>Properties: text edits\<close>

lemma concat_splitLines: "concat (splitLines s) = s"
  by (induction s) (auto split: list.splits)

lemma SplitAfter_splitLines:
  "\<exists>E. SplitAfter_newline s = splitLines s @ E \<and> concat E = []"
proof (induction s)
  case Nil
  then show ?case by simp
next
  case (Cons c cs)
  then obtain E where E: "SplitAfter_newline cs = splitLines cs @ E" "concat E = []" by blast
  show ?case
  proof (cases "c = CHR 0x0A")
    case True
    then show ?thesis using E by simp
  next
    case False
    show ?thesis
    proof (cases "splitLines cs")
      case Nil
      then have "cs = []" using concat_splitLines [of cs] by simp
      then have "SplitAfter_newline (c # cs) = splitLines (c # cs) @ []" using False by simp
      then show ?thesis by (metis concat.simps(1))
    next
      case (Cons l ls)
      then have "SplitAfter_newline (c # cs) = splitLines (c # cs) @ E" using False E by simp
      then show ?thesis using E by blast
    qed
  qed
qed

lemma before_of_map_Ins: "before_of (map Ins ys) = []" and after_of_map_Ins: "after_of (map Ins ys) = ys"
  by (induction ys) auto

lemma before_of_map_Del: "before_of (map Del xs) = xs" and after_of_map_Del: "after_of (map Del xs) = []"
  by (induction xs) auto

lemma line_diff_sound: "before_of (line_diff xs ys) = xs \<and> after_of (line_diff xs ys) = ys"
proof (induction xs ys rule: line_diff.induct)
  case (1 ys)
  then show ?case by (simp add: before_of_map_Ins after_of_map_Ins)
next
  case (2 x xs)
  then show ?case using before_of_map_Del [of "x # xs"] after_of_map_Del [of "x # xs"] by simp
next
  case (3 x xs y ys)
  then show ?case by (auto simp: Let_def)
qed

lemma line_diff_same: "line_diff xs xs = map Keep xs"
  by (induction xs) auto

lemma hunks_Keep: "hunks line None (map Keep xs) = []"
  by (induction xs arbitrary: line) auto

lemma concat_take_drop_padding:
  "concat E = [] \<Longrightarrow> concat (take k (drop j (L @ E))) = concat (take k (drop j L))"
proof -
  assume E: "concat E = []"
  have "\<forall>e \<in> set E. e = []" using E by simp
  then have "\<forall>e \<in> set (take (k - (length L - j)) (drop (j - length L) E)). e = []"
    by (meson in_set_dropD in_set_takeD)
  then have "concat (take (k - (length L - j)) (drop (j - length L) E)) = []" by simp
  then show ?thesis by simp
qed

lemma lines_between_nat:
  assumes "concat E = []"
  shows "lines_between (L @ E) (int lo) (int hi) = Inr (concat (take (hi - lo) (drop lo L)))"
  unfolding lines_between_def
  by (simp add: concat_take_drop_padding [OF assms] del: drop_append take_append)

lemma lines_between_end:
  "concat E = [] \<Longrightarrow>
   lines_between (L @ E) (int lo) (int (length (L @ E))) = Inr (concat (drop lo L))"
proof -
  assume E: "concat E = []"
  have "lines_between (L @ E) (int lo) (int (length (L @ E)))
          = Inr (concat (take (length (L @ E) - lo) (drop lo L)))"
    using lines_between_nat [OF E] by blast
  moreover have "take (length (L @ E) - lo) (drop lo L) = drop lo L" by simp
  ultimately show ?thesis by simp
qed

lemma take_Suc_drop:
  assumes "drop line L = l # rest" "l0 \<le> line"
  shows "concat (take (Suc line - l0) (drop l0 L)) = concat (take (line - l0) (drop l0 L)) @ l"
proof -
  have len: "line < length L" using assms(1) by (cases "line < length L") auto
  have l: "L ! line = l" using assms(1) len by (metis nth_via_drop)
  have "Suc line - l0 = Suc (line - l0)" using assms(2) by simp
  moreover have "line - l0 < length (drop l0 L)" using len assms(2) by simp
  ultimately have "take (Suc line - l0) (drop l0 L)
      = take (line - l0) (drop l0 L) @ [drop l0 L ! (line - l0)]"
    by (simp add: take_Suc_conv_app_nth)
  moreover have "drop l0 L ! (line - l0) = l" using l len assms(2) by simp
  ultimately show ?thesis by simp
qed

lemma apply_hunks:
  assumes E: "concat E = []"
  shows "drop line L = before_of ops \<Longrightarrow> l0 \<le> start \<Longrightarrow> start \<le> line \<Longrightarrow>
    (l0 \<le> line \<longrightarrow>
       applyEdits_loop (L @ E) (int l0) res (hunks (int line) None ops)
         = Inr (res @ concat (take (line - l0) (drop l0 L)) @ concat (after_of ops)))
    \<and> applyEdits_loop (L @ E) (int l0) res (hunks (int line) (Some (int start, nt)) ops)
         = Inr (res @ concat (take (start - l0) (drop l0 L)) @ nt @ concat (after_of ops))"
proof (induction ops arbitrary: line l0 start res nt)
  case Nil
  then have full: "length L \<le> line" by simp
  have a: "applyEdits_loop (L @ E) (int l0) res (hunks (int line) None [])
         = Inr (res @ concat (take (line - l0) (drop l0 L)) @ concat (after_of []))"
    using full E by (simp add: lines_between_end [simplified])
  have "lines_between (L @ E) (int line) (int (length (L @ E))) = Inr (concat (drop line L))"
    using lines_between_end [OF E] by blast
  then have tail: "lines_between (L @ E) (int line) (int (length L) + int (length E)) = Inr []"
    using full by simp
  have b: "applyEdits_loop (L @ E) (int l0) res (hunks (int line) (Some (int start, nt)) [])
         = Inr (res @ concat (take (start - l0) (drop l0 L)) @ nt @ concat (after_of []))"
    using tail lines_between_nat [OF E, of L l0 start] by (simp add: lineEdit_def)
  show ?case using a b by simp
next
  case (Cons op ops)
  show ?case
  proof (cases op)
    case (Keep l)
    have d: "drop line L = l # before_of ops" using Cons.prems(1) Keep by simp
    then have d': "drop (Suc line) L = before_of ops" by (metis drop_Suc tl_drop list.sel(3))
    have i: "int line + 1 = int (Suc line)" by simp
    have a: "l0 \<le> line \<longrightarrow> applyEdits_loop (L @ E) (int l0) res (hunks (int line) None (op # ops))
         = Inr (res @ concat (take (line - l0) (drop l0 L)) @ concat (after_of (op # ops)))"
    proof
      assume le: "l0 \<le> line"
      have "applyEdits_loop (L @ E) (int l0) res (hunks (int (Suc line)) None ops)
          = Inr (res @ concat (take (Suc line - l0) (drop l0 L)) @ concat (after_of ops))"
        using Cons.IH [OF d', of l0 l0 res] le by simp
      then show "applyEdits_loop (L @ E) (int l0) res (hunks (int line) None (op # ops))
         = Inr (res @ concat (take (line - l0) (drop l0 L)) @ concat (after_of (op # ops)))"
        using Keep take_Suc_drop [OF d le] by (simp add: i del: of_nat_Suc)
    qed
    have "applyEdits_loop (L @ E) (int line) (res @ concat (take (start - l0) (drop l0 L)) @ nt)
             (hunks (int (Suc line)) None ops)
          = Inr ((res @ concat (take (start - l0) (drop l0 L)) @ nt)
                 @ concat (take (Suc line - line) (drop line L)) @ concat (after_of ops))"
      using Cons.IH [OF d', of line line] by simp
    then have b: "applyEdits_loop (L @ E) (int l0) res (hunks (int line) (Some (int start, nt)) (op # ops))
         = Inr (res @ concat (take (start - l0) (drop l0 L)) @ nt @ concat (after_of (op # ops)))"
      using Keep d lines_between_nat [OF E, of L l0 start]
      by (simp add: i lineEdit_def del: of_nat_Suc)
    show ?thesis using a b by simp
  next
    case (Del l)
    have d: "drop line L = l # before_of ops" using Cons.prems(1) Del by simp
    then have d': "drop (Suc line) L = before_of ops" by (metis drop_Suc tl_drop list.sel(3))
    have i: "int line + 1 = int (Suc line)" by simp
    have a: "l0 \<le> line \<longrightarrow> applyEdits_loop (L @ E) (int l0) res (hunks (int line) None (op # ops))
         = Inr (res @ concat (take (line - l0) (drop l0 L)) @ concat (after_of (op # ops)))"
    proof
      assume le: "l0 \<le> line"
      have "applyEdits_loop (L @ E) (int l0) res (hunks (int (Suc line)) (Some (int line, [])) ops)
          = Inr (res @ concat (take (line - l0) (drop l0 L)) @ [] @ concat (after_of ops))"
        using Cons.IH [OF d', of l0 line] le by simp
      then show "applyEdits_loop (L @ E) (int l0) res (hunks (int line) None (op # ops))
         = Inr (res @ concat (take (line - l0) (drop l0 L)) @ concat (after_of (op # ops)))"
        using Del by (simp add: i del: of_nat_Suc)
    qed
    have "applyEdits_loop (L @ E) (int l0) res (hunks (int (Suc line)) (Some (int start, nt)) ops)
          = Inr (res @ concat (take (start - l0) (drop l0 L)) @ nt @ concat (after_of ops))"
      using Cons.IH [OF d', of l0 start] Cons.prems by simp
    then have b: "applyEdits_loop (L @ E) (int l0) res (hunks (int line) (Some (int start, nt)) (op # ops))
         = Inr (res @ concat (take (start - l0) (drop l0 L)) @ nt @ concat (after_of (op # ops)))"
      using Del by (simp add: i del: of_nat_Suc)
    show ?thesis using a b by simp
  next
    case (Ins l)
    have d: "drop line L = before_of ops" using Cons.prems(1) Ins by simp
    have a: "l0 \<le> line \<longrightarrow> applyEdits_loop (L @ E) (int l0) res (hunks (int line) None (op # ops))
         = Inr (res @ concat (take (line - l0) (drop l0 L)) @ concat (after_of (op # ops)))"
    proof
      assume le: "l0 \<le> line"
      have "applyEdits_loop (L @ E) (int l0) res (hunks (int line) (Some (int line, l)) ops)
          = Inr (res @ concat (take (line - l0) (drop l0 L)) @ l @ concat (after_of ops))"
        using Cons.IH [OF d, of l0 line] le by simp
      then show "applyEdits_loop (L @ E) (int l0) res (hunks (int line) None (op # ops))
         = Inr (res @ concat (take (line - l0) (drop l0 L)) @ concat (after_of (op # ops)))"
        using Ins by simp
    qed
    have "applyEdits_loop (L @ E) (int l0) res (hunks (int line) (Some (int start, nt @ l)) ops)
          = Inr (res @ concat (take (start - l0) (drop l0 L)) @ (nt @ l) @ concat (after_of ops))"
      using Cons.IH [OF d, of l0 start] Cons.prems by simp
    then have b: "applyEdits_loop (L @ E) (int l0) res (hunks (int line) (Some (int start, nt)) (op # ops))
         = Inr (res @ concat (take (start - l0) (drop l0 L)) @ nt @ concat (after_of (op # ops)))"
      using Ins by simp
    show ?thesis using a b by simp
  qed
qed

text \<open>
  C1. For every pair of texts, applying the edits of \<open>ComputeEdits(uri, before, after)\<close>
  to \<open>before\<close> with \<open>applyEdits\<close> runs without panic and yields exactly \<open>after\<close>;
  for equal texts the list of edits is empty.
\<close>

theorem ComputeEdits_correct:
  "applyEdits before (ComputeEdits uri before after) = Inr after
   \<and> ComputeEdits uri before before = []"
proof -
  obtain E where E: "SplitAfter_newline before = splitLines before @ E" "concat E = []"
    using SplitAfter_splitLines by blast
  let ?ops = "line_diff (splitLines before) (splitLines after)"
  have d: "drop 0 (splitLines before) = before_of ?ops" by (simp add: line_diff_sound)
  have "applyEdits_loop (splitLines before @ E) (int 0) [] (hunks (int 0) None ?ops)
      = Inr ([] @ concat (take (0 - 0) (drop 0 (splitLines before))) @ concat (after_of ?ops))"
    using apply_hunks [OF E(2) d, of 0 0 "[]"] by blast
  then have "applyEdits before (ComputeEdits uri before after) = Inr after"
    using E(1) by (simp add: applyEdits_def ComputeEdits_def line_diff_sound concat_splitLines)
  moreover have "ComputeEdits uri before before = []"
    by (simp add: ComputeEdits_def line_diff_same hunks_Keep)
  ultimately show ?thesis by simp
qed

end
